theory Spec2Isabelle
  imports Complex_Main "HOL-Library.Word"
begin

unbundle bit_operations_syntax

section \<open>The UM6 driver: transport operations, errors and parameters\<close>

text \<open>
  The driver (\<^verbatim>\<open>src/main.cpp\<close>) talks to the sensor only through
  \<^verbatim>\<open>um6::Comms::sendWaitAck\<close>, which sends one register and reports whether the
  acknowledgment arrived. The registers the driver sends are named here as the fields of
  \<^verbatim>\<open>um6::Registers\<close> it uses.
\<close>

datatype reg =
    Communication | MiscConfig
  | MagRef | AccelRef | MagBias | AccelBias | GyroBias | GpsHome
  | CmdZeroGyros | CmdResetEkf | CmdSetMagRef | CmdSetAccelRef

text \<open>
  One call of \<^verbatim>\<open>sendWaitAck\<close>, with what the register held when it was sent:
  a raw word stored by \<^verbatim>\<open>set(0, v)\<close>, three components stored by
  \<^verbatim>\<open>set_scaled(0..2, _)\<close>, or nothing (a command register).
  C++ doubles are modelled as reals; the driver only copies and negates them on the
  paths modelled below, except in the GPS odometry record.
\<close>

datatype op =
    WriteRaw reg "32 word"
  | WriteVec reg real real real
  | Command reg

datatype error = LogicError string | RuntimeError string

text \<open>
  The transport: whether the acknowledgment of an operation arrives, given the operations
  sent on this connection before it. The list of operations sent so far is the state
  threaded through the driver.
\<close>

type_synonym device = "op list \<Rightarrow> op \<Rightarrow> bool"

type_synonym 'a action = "op list \<Rightarrow> (error + 'a) \<times> op list"

definition sendWaitAck :: "device \<Rightarrow> op \<Rightarrow> op list \<Rightarrow> bool \<times> op list" where
  "sendWaitAck dev x tr = (dev tr x, tr @ [x])"

definition skip :: "unit action" where
  "skip tr = (Inr (), tr)"

text \<open>Statement sequencing: an exception thrown by the first statement skips the second.\<close>

definition andThen :: "unit action \<Rightarrow> 'a action \<Rightarrow> 'a action" where
  "andThen m k tr = (case m tr of (Inl e, tr') \<Rightarrow> (Inl e, tr') | (Inr _, tr') \<Rightarrow> k tr')"

text \<open>
  The constants and register shapes of \<^verbatim>\<open>um6/registers.h\<close> and the firmware header
  it includes. Those headers are not among the sources, so they are a parameter of the
  model: every theorem below holds for any values of them unless it says otherwise.
\<close>

record firmware =
  UM6_BROADCAST_ENABLED :: "32 word"
  UM6_GYROS_PROC_ENABLED :: "32 word"
  UM6_ACCELS_PROC_ENABLED :: "32 word"
  UM6_MAG_PROC_ENABLED :: "32 word"
  UM6_QUAT_ENABLED :: "32 word"
  UM6_EULER_ENABLED :: "32 word"
  UM6_COV_ENABLED :: "32 word"
  UM6_TEMPERATURE_ENABLED :: "32 word"
  UM6_GPS_POSITION_ENABLED :: "32 word"
  UM6_GPS_REL_POSITION_ENABLED :: "32 word"
  UM6_GPS_COURSE_SPEED_ENABLED :: "32 word"
  UM6_GPS_SAT_SUMMARY_ENABLED :: "32 word"
  UM6_GPS_SAT_DATA_ENABLED :: "32 word"
  UM6_BAUD_START_BIT :: nat
  UM6_GPS_BAUD_START_BIT :: nat
  UM6_QUAT_ESTIMATE_ENABLED :: "32 word"
  UM6_MAG_UPDATE_ENABLED :: "32 word"
  UM6_ACCEL_UPDATE_ENABLED :: "32 word"
  UM6_GPS_MODE_START_BIT :: nat
  UM6_GPS_MODE_MASK :: "32 word"
  UM6_GPS_HDOP_START_BIT :: nat
  UM6_GPS_HDOP_MASK :: "32 word"
  UM6_GPS_VDOP_START_BIT :: nat
  UM6_GPS_VDOP_MASK :: "32 word"
  UM6_GPS_SAT_COUNT_START_BIT :: nat
  UM6_GPS_SAT_COUNT_MASK :: "32 word"
  reg_length :: "reg \<Rightarrow> nat"

text \<open>
  The parameter server (\<^verbatim>\<open>ros::param\<close>): each parameter the driver reads is set
  or not. A vector group that is set carries its \<^verbatim>\<open>x\<close>, \<^verbatim>\<open>y\<close>, \<^verbatim>\<open>z\<close>
  entries (with an entry missing, the C++ local stays uninitialised, which has no value
  to model).
\<close>

type_synonym vec3 = "real \<times> real \<times> real"

record params =
  param_port :: "string option"
  param_baud :: "32 word option"
  param_frame_id :: "string option"
  param_gps_baud :: "32 word option"
  param_gps_enable :: "bool option"
  param_mag_updates :: "bool option"
  param_accel_updates :: "bool option"
  param_zero_gyros :: "bool option"
  param_mag_ref :: "vec3 option"
  param_accel_ref :: "vec3 option"
  param_mag_bias :: "vec3 option"
  param_accel_bias :: "vec3 option"
  param_gyro_bias :: "vec3 option"
  param_gps_home :: "vec3 option"
  param_gps_odom :: "string option"

text \<open>\<^verbatim>\<open>ros::param::param<T>(name, var, default)\<close>: the value if set, else the default.\<close>

definition param_or :: "'a option \<Rightarrow> 'a \<Rightarrow> 'a" where
  "param_or v d = (case v of None \<Rightarrow> d | Some a \<Rightarrow> a)"

section \<open>Configuration\<close>

text \<open>\<^verbatim>\<open>configureVector3\<close> (lines 61-86).\<close>

definition configureVector3 :: "firmware \<Rightarrow> device \<Rightarrow> reg \<Rightarrow> vec3 option \<Rightarrow> unit action" where
  "configureVector3 fw dev r param tr =
     (if reg_length fw r \<noteq> 3
      then (Inl (LogicError ''configureVector3 may only be used with 3-field registers!''), tr)
      else case param of
        None \<Rightarrow> (Inr (), tr)
      | Some (x, y, z) \<Rightarrow>
          (case sendWaitAck dev (WriteVec r x y z) tr of (ack, tr') \<Rightarrow>
             if ack then (Inl (RuntimeError ''Unable to configure vector.''), tr')
             else (Inr (), tr')))"

text \<open>\<^verbatim>\<open>sendCommand\<close> (lines 92-100).\<close>

definition sendCommand :: "device \<Rightarrow> reg \<Rightarrow> unit action" where
  "sendCommand dev r tr =
     (case sendWaitAck dev (Command r) tr of (ack, tr') \<Rightarrow>
        if \<not> ack then (Inl (RuntimeError ''Command to device failed.''), tr')
        else (Inr (), tr'))"

text \<open>
  \<^verbatim>\<open>baudValueToBitSetting\<close> (lines 102-127). The argument is an \<^verbatim>\<open>int32_t\<close>,
  compared for equality only, so its 32 bits are all that matters.
\<close>

definition baudValueToBitSetting :: "32 word \<Rightarrow> error + 8 word" where
  "baudValueToBitSetting baud_rate =
     (if baud_rate = 9600 then Inr 0x0
      else if baud_rate = 14400 then Inr 0x1
      else if baud_rate = 19200 then Inr 0x2
      else if baud_rate = 38400 then Inr 0x3
      else if baud_rate = 57600 then Inr 0x4
      else if baud_rate = 115200 then Inr 0x5
      else Inl (RuntimeError ''Invalid Baud Rate''))"

text \<open>
  \<^verbatim>\<open>configureSensor\<close>, lines 137-158: the value of the local \<^verbatim>\<open>comm_reg\<close>, or the
  exception of the baud translation.
\<close>

definition comm_reg :: "firmware \<Rightarrow> params \<Rightarrow> error + 32 word" where
  "comm_reg fw p =
     (case baudValueToBitSetting 115200 of
        Inl e \<Rightarrow> Inl e
      | Inr sensor_bits \<Rightarrow>
          (case baudValueToBitSetting (param_or (param_gps_baud p) 9600) of
             Inl e \<Rightarrow> Inl e
           | Inr gps_bits \<Rightarrow>
               let c = UM6_BROADCAST_ENABLED fw OR
                       UM6_GYROS_PROC_ENABLED fw OR UM6_ACCELS_PROC_ENABLED fw OR
                       UM6_MAG_PROC_ENABLED fw OR
                       UM6_QUAT_ENABLED fw OR UM6_EULER_ENABLED fw OR UM6_COV_ENABLED fw OR
                       UM6_TEMPERATURE_ENABLED fw OR
                       push_bit (UM6_BAUD_START_BIT fw) (ucast sensor_bits) OR
                       push_bit (UM6_GPS_BAUD_START_BIT fw) (ucast gps_bits)
               in Inr (if param_or (param_gps_enable p) False
                       then c OR (UM6_GPS_POSITION_ENABLED fw OR
                                  UM6_GPS_REL_POSITION_ENABLED fw OR
                                  UM6_GPS_COURSE_SPEED_ENABLED fw OR
                                  UM6_GPS_SAT_SUMMARY_ENABLED fw OR
                                  UM6_GPS_SAT_DATA_ENABLED fw)
                       else c)))"

text \<open>Lines 166-187: the value of the local \<^verbatim>\<open>misc_config_reg\<close>.\<close>

definition misc_config_reg :: "firmware \<Rightarrow> params \<Rightarrow> 32 word" where
  "misc_config_reg fw p =
     (let m0 = UM6_QUAT_ESTIMATE_ENABLED fw;
          m1 = (if param_or (param_mag_updates p) True then m0 OR UM6_MAG_UPDATE_ENABLED fw else m0);
          m2 = (if param_or (param_accel_updates p) True then m1 OR UM6_ACCEL_UPDATE_ENABLED fw else m1)
      in m2)"

text \<open>Lines 160-164 and 187-191: a register write whose missing acknowledgment throws.\<close>

definition writeOrThrow :: "device \<Rightarrow> reg \<Rightarrow> 32 word \<Rightarrow> string \<Rightarrow> unit action" where
  "writeOrThrow dev r v what tr =
     (case sendWaitAck dev (WriteRaw r v) tr of (ack, tr') \<Rightarrow>
        if \<not> ack then (Inl (RuntimeError what), tr') else (Inr (), tr'))"

text \<open>\<^verbatim>\<open>configureSensor\<close> (lines 133-212).\<close>

definition configureSensor :: "firmware \<Rightarrow> device \<Rightarrow> params \<Rightarrow> unit action" where
  "configureSensor fw dev p tr =
     (case comm_reg fw p of
        Inl e \<Rightarrow> (Inl e, tr)
      | Inr c \<Rightarrow>
         andThen (writeOrThrow dev Communication c ''Unable to set communication register.'')
        (andThen (writeOrThrow dev MiscConfig (misc_config_reg fw p)
                    ''Unable to set misc config register.'')
        (andThen (if param_or (param_zero_gyros p) True
                  then sendCommand dev CmdZeroGyros else skip)
        (andThen (configureVector3 fw dev MagRef (param_mag_ref p))
        (andThen (configureVector3 fw dev AccelRef (param_accel_ref p))
        (andThen (configureVector3 fw dev MagBias (param_mag_bias p))
        (andThen (configureVector3 fw dev AccelBias (param_accel_bias p))
        (andThen (configureVector3 fw dev GyroBias (param_gyro_bias p))
                 (if param_or (param_gps_enable p) False
                  then configureVector3 fw dev GpsHome (param_gps_home p)
                  else skip)))))))) tr)"

text \<open>Lines 424-430 of \<^verbatim>\<open>main\<close>: the rate the serial port is opened at.\<close>

definition serial_baudrate :: "params \<Rightarrow> 32 word" where
  "serial_baudrate p = param_or (param_baud p) 115200"

section \<open>The reset service\<close>

record ResetRequest =
  zero_gyros :: bool
  reset_ekf :: bool
  set_mag_ref :: bool
  set_accel_ref :: bool

text \<open>\<^verbatim>\<open>handleResetService\<close> (lines 215-224).\<close>

definition handleResetService :: "device \<Rightarrow> ResetRequest \<Rightarrow> bool action" where
  "handleResetService dev req =
     andThen (if zero_gyros req then sendCommand dev CmdZeroGyros else skip)
    (andThen (if reset_ekf req then sendCommand dev CmdResetEkf else skip)
    (andThen (if set_mag_ref req then sendCommand dev CmdSetMagRef else skip)
    (andThen (if set_accel_ref req then sendCommand dev CmdSetAccelRef else skip)
             (\<lambda>tr. (Inr True, tr)))))"

section \<open>Publishing\<close>

text \<open>
  The register snapshot \<^verbatim>\<open>um6::Registers\<close> as \<^verbatim>\<open>publishMsgs\<close> reads it:
  \<open>quat r i\<close> is \<^verbatim>\<open>r.quat.get_scaled(i)\<close>, and likewise for the covariance, gyro,
  accel, mag, euler and temperature registers; \<open>gps_status r i\<close>, \<open>gps_abs r i\<close>,
  \<open>gps_rel r i\<close> and \<open>gps_course_speed r i\<close> are \<^verbatim>\<open>get(i)\<close> of those registers
  (the status register as the unsigned word its bit fields are cut from, the others as
  the number the driver converts to a double).
\<close>

record Registers =
  quat :: "nat \<Rightarrow> real"
  covariance :: "nat \<Rightarrow> real"
  gyro :: "nat \<Rightarrow> real"
  accel :: "nat \<Rightarrow> real"
  mag :: "nat \<Rightarrow> real"
  euler :: "nat \<Rightarrow> real"
  temperature :: "nat \<Rightarrow> real"
  gps_status :: "nat \<Rightarrow> 32 word"
  gps_abs :: "nat \<Rightarrow> real"
  gps_rel :: "nat \<Rightarrow> real"
  gps_course_speed :: "nat \<Rightarrow> real"

datatype Header = Header (stamp: nat) (frame_id: string)

datatype Vector3 = Vector3 (vx: real) (vy: real) (vz: real)

datatype Quaternion = Quaternion (qx: real) (qy: real) (qz: real) (qw: real)

text \<open>The fields of \<^verbatim>\<open>sensor_msgs::Imu\<close> and \<^verbatim>\<open>nav_msgs::Odometry\<close> the driver assigns.\<close>

datatype Imu = Imu
  (imu_header: Header)
  (orientation: Quaternion)
  (orientation_covariance: "real list")
  (angular_velocity: Vector3)
  (linear_acceleration: Vector3)

datatype Odometry = Odometry
  (odom_header: Header)
  (child_frame_id: string)
  (pose_position: Vector3)
  (pose_orientation: Quaternion)
  (pose_covariance: "real list")
  (twist_linear: Vector3)
  (twist_angular: Vector3)
  (twist_covariance: "real list")

datatype msg =
    ImuMsg Imu
  | Vector3Stamped Header Vector3
  | Float32 real
  | UInt8 "8 word"
  | OdometryMsg Odometry

datatype topic =
    ImuData | ImuMag | ImuRpy | ImuTemperature
  | GpsAbs | GpsRel | GpsNumSat | GpsDop | GpsStatus
  | GpsOdom string

text \<open>
  What the message bus answers during one call of \<^verbatim>\<open>publishMsgs\<close>: the number of
  subscribers of each publisher, and whether the odometry publisher is valid.
\<close>

record Bus =
  getNumSubscribers :: "topic \<Rightarrow> nat"
  gps_odom_pub_valid :: bool

text \<open>A bit field of the GPS status register, as lines 314, 342, 343 and 352 cut it.\<close>

definition status_field :: "Registers \<Rightarrow> nat \<Rightarrow> 32 word \<Rightarrow> 32 word" where
  "status_field r start_bit field_mask = drop_bit start_bit (gps_status r 0) AND field_mask"

text \<open>Lines 364-408: the odometry record.\<close>

definition gps_odom_msg :: "firmware \<Rightarrow> Registers \<Rightarrow> Header \<Rightarrow> Odometry" where
  "gps_odom_msg fw r header =
     (let hdop = real (unat (status_field r (UM6_GPS_HDOP_START_BIT fw) (UM6_GPS_HDOP_MASK fw)));
          vdop = real (unat (status_field r (UM6_GPS_VDOP_START_BIT fw) (UM6_GPS_VDOP_MASK fw)));
          pdop = sqrt (hdop * hdop + vdop * vdop);
          course = gps_course_speed r 0 * (314159265 / 10000000000);
          speed = gps_course_speed r 1 / 100
      in Odometry header ''base''
           (Vector3 (gps_abs r 0) (gps_abs r 1) (gps_abs r 2))
           (Quaternion 0 0 0 1)
           ((replicate 36 0)[0 := pdop, 7 := pdop, 14 := pdop,
                             21 := 999999, 28 := 999999, 35 := 999999])
           (Vector3 (speed * cos course) (speed * sin course) 0)
           (Vector3 0 0 0)
           ((replicate 36 0)[0 := 999999, 7 := 999999, 14 := 999999,
                             21 := 999999, 28 := 999999, 35 := 999999]))"

text \<open>
  \<^verbatim>\<open>publishMsgs\<close> (lines 230-412): the messages handed to \<^verbatim>\<open>publish\<close>, in order,
  each with the topic of its publisher. The dilution-of-precision branch (lines 338-347)
  fills its message and ends without a call of \<^verbatim>\<open>publish\<close>.
\<close>

definition publishMsgs ::
  "firmware \<Rightarrow> Registers \<Rightarrow> Bus \<Rightarrow> params \<Rightarrow> Header \<Rightarrow> (topic \<times> msg) list" where
  "publishMsgs fw r bus p header =
     (if getNumSubscribers bus ImuData > 0
      then [(ImuData, ImuMsg (Imu header
              (Quaternion (quat r 2) (quat r 1) (- quat r 3) (quat r 0))
              [covariance r 5, covariance r 6, covariance r 7,
               covariance r 9, covariance r 10, covariance r 11,
               covariance r 13, covariance r 14, covariance r 15]
              (Vector3 (gyro r 1) (gyro r 0) (- gyro r 2))
              (Vector3 (accel r 1) (accel r 0) (- accel r 2))))]
      else []) @
     (if getNumSubscribers bus ImuMag > 0
      then [(ImuMag, Vector3Stamped header (Vector3 (mag r 1) (mag r 0) (- mag r 2)))]
      else []) @
     (if getNumSubscribers bus ImuRpy > 0
      then [(ImuRpy, Vector3Stamped header (Vector3 (euler r 1) (euler r 0) (- euler r 2)))]
      else []) @
     (if getNumSubscribers bus ImuTemperature > 0
      then [(ImuTemperature, Float32 (temperature r 0))]
      else []) @
     (if param_or (param_gps_enable p) False
      then
        (if getNumSubscribers bus GpsStatus > 0
         then [(GpsStatus, UInt8 (ucast (status_field r (UM6_GPS_MODE_START_BIT fw)
                                                        (UM6_GPS_MODE_MASK fw))))]
         else []) @
        (if getNumSubscribers bus GpsAbs > 0
         then [(GpsAbs, Vector3Stamped header (Vector3 (gps_abs r 0) (gps_abs r 1) (gps_abs r 2)))]
         else []) @
        (if getNumSubscribers bus GpsRel > 0
         then [(GpsRel, Vector3Stamped header (Vector3 (gps_rel r 0) (gps_rel r 1) (gps_rel r 2)))]
         else []) @
        (if getNumSubscribers bus GpsDop > 0
         then (let hdop = real (unat (status_field r (UM6_GPS_HDOP_START_BIT fw)
                                                     (UM6_GPS_HDOP_MASK fw)));
                   vdop = real (unat (status_field r (UM6_GPS_VDOP_START_BIT fw)
                                                     (UM6_GPS_VDOP_MASK fw)));
                   gps_dop_msg = Vector3Stamped header (Vector3 hdop hdop vdop)
               in [])
         else []) @
        (if getNumSubscribers bus GpsNumSat > 0
         then [(GpsNumSat, UInt8 (ucast (status_field r (UM6_GPS_SAT_COUNT_START_BIT fw)
                                                        (UM6_GPS_SAT_COUNT_MASK fw))))]
         else []) @
        (case param_gps_odom p of
           None \<Rightarrow> []
         | Some gps_odom_topic \<Rightarrow>
             if gps_odom_pub_valid bus
             then [(GpsOdom gps_odom_topic, OdometryMsg (gps_odom_msg fw r header))]
             else [])
      else [])"

section \<open>Reference inputs and the properties' vocabulary\<close>

text \<open>
  A register layout after the UM6 datasheet, as one value of the firmware parameter: the
  concrete inputs below are evaluated with it.
\<close>

definition um6_datasheet :: firmware where
  "um6_datasheet = \<lparr>
     UM6_BROADCAST_ENABLED = push_bit 30 1,
     UM6_GYROS_PROC_ENABLED = push_bit 26 1,
     UM6_ACCELS_PROC_ENABLED = push_bit 25 1,
     UM6_MAG_PROC_ENABLED = push_bit 24 1,
     UM6_QUAT_ENABLED = push_bit 23 1,
     UM6_EULER_ENABLED = push_bit 22 1,
     UM6_COV_ENABLED = push_bit 21 1,
     UM6_TEMPERATURE_ENABLED = push_bit 20 1,
     UM6_GPS_POSITION_ENABLED = push_bit 19 1,
     UM6_GPS_REL_POSITION_ENABLED = push_bit 18 1,
     UM6_GPS_COURSE_SPEED_ENABLED = push_bit 17 1,
     UM6_GPS_SAT_SUMMARY_ENABLED = push_bit 16 1,
     UM6_GPS_SAT_DATA_ENABLED = push_bit 15 1,
     UM6_BAUD_START_BIT = 8,
     UM6_GPS_BAUD_START_BIT = 11,
     UM6_QUAT_ESTIMATE_ENABLED = push_bit 28 1,
     UM6_MAG_UPDATE_ENABLED = push_bit 31 1,
     UM6_ACCEL_UPDATE_ENABLED = push_bit 30 1,
     UM6_GPS_MODE_START_BIT = 30,
     UM6_GPS_MODE_MASK = 0x03,
     UM6_GPS_HDOP_START_BIT = 16,
     UM6_GPS_HDOP_MASK = 0x03FF,
     UM6_GPS_VDOP_START_BIT = 6,
     UM6_GPS_VDOP_MASK = 0x03FF,
     UM6_GPS_SAT_COUNT_START_BIT = 26,
     UM6_GPS_SAT_COUNT_MASK = 0x0F,
     reg_length = (\<lambda>r. if r \<in> {MagRef, AccelRef, MagBias, AccelBias, GyroBias, GpsHome}
                         then 3 else 1) \<rparr>"

text \<open>A parameter server with nothing set.\<close>

definition no_params :: params where
  "no_params = \<lparr>
     param_port = None, param_baud = None, param_frame_id = None,
     param_gps_baud = None, param_gps_enable = None,
     param_mag_updates = None, param_accel_updates = None, param_zero_gyros = None,
     param_mag_ref = None, param_accel_ref = None, param_mag_bias = None,
     param_accel_bias = None, param_gyro_bias = None, param_gps_home = None,
     param_gps_odom = None \<rparr>"

text \<open>GPS enabled and all six vector groups set.\<close>

definition full_params :: params where
  "full_params = no_params \<lparr>
     param_gps_enable := Some True,
     param_mag_ref := Some (1, 2, 3), param_accel_ref := Some (4, 5, 6),
     param_mag_bias := Some (7, 8, 9), param_accel_bias := Some (10, 11, 12),
     param_gyro_bias := Some (13, 14, 15), param_gps_home := Some (16, 17, 18) \<rparr>"

text \<open>A transport on which every acknowledgment arrives.\<close>

definition ack_all :: device where
  "ack_all tr x = True"

text \<open>A transport that acknowledges everything but the vector writes.\<close>

fun is_vector_write :: "op \<Rightarrow> bool" where
  "is_vector_write (WriteVec r x y z) = True"
| "is_vector_write _ = False"

fun is_command :: "op \<Rightarrow> bool" where
  "is_command (Command r) = True"
| "is_command _ = False"

definition ack_but_vectors :: device where
  "ack_but_vectors tr x = (\<not> is_vector_write x)"

definition supported_bauds :: "32 word set" where
  "supported_bauds = {9600, 14400, 19200, 38400, 57600, 115200}"

text \<open>The three-bit field of a communication register value that starts at a given bit.\<close>

definition baud_field :: "nat \<Rightarrow> 32 word \<Rightarrow> 32 word" where
  "baud_field start_bit v = take_bit 3 (drop_bit start_bit v)"

definition on_topic :: "topic \<Rightarrow> (topic \<times> msg) list \<Rightarrow> msg list" where
  "on_topic t out = map snd (filter (\<lambda>e. fst e = t) out)"

text \<open>The thirteen output-enable flags that \<^verbatim>\<open>configureSensor\<close> can set.\<close>

definition comm_flags :: "firmware \<Rightarrow> 32 word" where
  "comm_flags fw =
     UM6_BROADCAST_ENABLED fw OR
     UM6_GYROS_PROC_ENABLED fw OR UM6_ACCELS_PROC_ENABLED fw OR UM6_MAG_PROC_ENABLED fw OR
     UM6_QUAT_ENABLED fw OR UM6_EULER_ENABLED fw OR UM6_COV_ENABLED fw OR
     UM6_TEMPERATURE_ENABLED fw OR
     UM6_GPS_POSITION_ENABLED fw OR UM6_GPS_REL_POSITION_ENABLED fw OR
     UM6_GPS_COURSE_SPEED_ENABLED fw OR UM6_GPS_SAT_SUMMARY_ENABLED fw OR
     UM6_GPS_SAT_DATA_ENABLED fw"

text \<open>Nothing set but a serial rate of 9600; only the magnetic reference set.\<close>

definition slow_params :: params where
  "slow_params = no_params \<lparr> param_baud := Some 9600 \<rparr>"

definition mag_ref_params :: params where
  "mag_ref_params = no_params \<lparr> param_mag_ref := Some (1, 2, 3) \<rparr>"

text \<open>A request with every flag set, and a transport that fails the estimator reset only.\<close>

definition all_flags :: ResetRequest where
  "all_flags = \<lparr> zero_gyros = True, reset_ekf = True, set_mag_ref = True, set_accel_ref = True \<rparr>"

definition nack_reset_ekf :: device where
  "nack_reset_ekf tr x = (x \<noteq> Command CmdResetEkf)"

text \<open>A snapshot, a bus on which every topic has a subscriber, and a header.\<close>

definition sample_registers :: Registers where
  "sample_registers = \<lparr>
     quat = (\<lambda>i. if i = 0 then 1 else 0),
     covariance = (\<lambda>i. real i),
     gyro = (\<lambda>i. real (i + 1)),
     accel = (\<lambda>i. real (i + 4)),
     mag = (\<lambda>i. real (i + 7)),
     euler = (\<lambda>i. real (i + 10)),
     temperature = (\<lambda>i. 25),
     gps_status = (\<lambda>i. 0),
     gps_abs = (\<lambda>i. real i),
     gps_rel = (\<lambda>i. real i),
     gps_course_speed = (\<lambda>i. 0) \<rparr>"

definition all_subscribed :: Bus where
  "all_subscribed = \<lparr> getNumSubscribers = (\<lambda>t. 1), gps_odom_pub_valid = True \<rparr>"

definition imu_link :: Header where
  "imu_link = Header 0 ''imu_link''"

text \<open>An action only appends to the list of operations sent.\<close>

definition appends :: "'a action \<Rightarrow> bool" where
  "appends m \<longleftrightarrow> (\<forall>tr. \<exists>ops. snd (m tr) = tr @ ops)"

text \<open>
  An action stops at a failure when every operation it sends unacknowledged is the last
  one it sends, and it then ends in the exception of \<^verbatim>\<open>sendCommand\<close>.
\<close>

definition fail_stop :: "device \<Rightarrow> 'a action \<Rightarrow> bool" where
  "fail_stop dev m \<longleftrightarrow>
     (\<forall>tr. \<exists>ops. snd (m tr) = tr @ ops \<and>
        (\<forall>pre c post. ops = pre @ c # post \<and> \<not> dev (tr @ pre) c \<longrightarrow>
            post = [] \<and> fst (m tr) = Inl (RuntimeError ''Command to device failed.'')))"

section \<open>Properties of the baud translation\<close>

lemma baud_bijection:
  "bij_betw baudValueToBitSetting supported_bauds (Inr ` {0, 1, 2, 3, 4, 5})"
  unfolding bij_betw_def inj_on_def supported_bauds_def
  by (auto simp add: baudValueToBitSetting_def)

lemma baud_rejected:
  "b \<notin> supported_bauds \<Longrightarrow> baudValueToBitSetting b = Inl (RuntimeError ''Invalid Baud Rate'')"
  by (simp add: baudValueToBitSetting_def supported_bauds_def)

lemma baud_115200: "baudValueToBitSetting 115200 = Inr 5"
  by (simp add: baudValueToBitSetting_def)

lemma comm_reg_rejected:
  "param_or (param_gps_baud p) 9600 \<notin> supported_bauds \<Longrightarrow>
   comm_reg fw p = Inl (RuntimeError ''Invalid Baud Rate'')"
  by (simp add: comm_reg_def baud_rejected baud_115200)

text \<open>
  C7: the baud translation is a bijection from the six supported rates onto the codes
  0..5; every other value raises the configuration error, and \<^verbatim>\<open>configureSensor\<close>
  then ends in that error with no operation sent (the trace is the one it started with).
\<close>

theorem baud_translation_bijective_or_rejected:
  "bij_betw baudValueToBitSetting supported_bauds (Inr ` {0, 1, 2, 3, 4, 5}) \<and>
   (b \<notin> supported_bauds \<longrightarrow>
      baudValueToBitSetting b = Inl (RuntimeError ''Invalid Baud Rate'')) \<and>
   (param_or (param_gps_baud p) 9600 \<notin> supported_bauds \<longrightarrow>
      configureSensor fw dev p tr = (Inl (RuntimeError ''Invalid Baud Rate''), tr))"
  by (intro conjI impI baud_bijection baud_rejected)
     (simp_all add: configureSensor_def comm_reg_rejected)

text \<open>The rate 4800 is rejected, and with it as GPS rate nothing is sent.\<close>

theorem baud_translation_witness:
  "bij_betw baudValueToBitSetting supported_bauds (Inr ` {0, 1, 2, 3, 4, 5}) \<and>
   4800 \<notin> supported_bauds \<and>
   baudValueToBitSetting 4800 = Inl (RuntimeError ''Invalid Baud Rate'') \<and>
   configureSensor um6_datasheet ack_all (no_params \<lparr> param_gps_baud := Some 4800 \<rparr>) [] =
     (Inl (RuntimeError ''Invalid Baud Rate''), [])"
proof -
  have h: "(4800 :: 32 word) \<notin> supported_bauds"
    by (simp add: supported_bauds_def)
  have g: "param_or (param_gps_baud (no_params \<lparr> param_gps_baud := Some 4800 \<rparr>)) 9600 = 4800"
    by (simp add: param_or_def)
  show ?thesis
    using h g baud_translation_bijective_or_rejected
      [of 4800 "no_params \<lparr> param_gps_baud := Some 4800 \<rparr>" um6_datasheet ack_all "[]"]
    by simp
qed

section \<open>Properties of the configuration sequence\<close>

text \<open>
  C1: evaluated with the magnetic reference set. On a transport that acknowledges every
  operation the vector write is sent and the sequence ends in the exception; on a
  transport that does not acknowledge vector writes the sequence completes.
\<close>

theorem configureVector3_throws_on_acknowledgment:
  "configureSensor um6_datasheet ack_all mag_ref_params [] =
     (Inl (RuntimeError ''Unable to configure vector.''),
      [WriteRaw Communication 0x47F00500, WriteRaw MiscConfig 0xD0000000,
       Command CmdZeroGyros, WriteVec MagRef 1 2 3]) \<and>
   configureSensor um6_datasheet ack_but_vectors mag_ref_params [] =
     (Inr (),
      [WriteRaw Communication 0x47F00500, WriteRaw MiscConfig 0xD0000000,
       Command CmdZeroGyros, WriteVec MagRef 1 2 3])"
  by (simp add: configureSensor_def comm_reg_def misc_config_reg_def baudValueToBitSetting_def
      um6_datasheet_def ack_all_def ack_but_vectors_def no_params_def mag_ref_params_def
      param_or_def andThen_def writeOrThrow_def sendWaitAck_def sendCommand_def
      configureVector3_def skip_def)

text \<open>
  C3: evaluated with GPS enabled and all six vector groups set. With every operation
  acknowledged, four operations are sent and the sequence ends in the exception; on a
  transport that acknowledges no vector write, all nine operations are sent.
\<close>

theorem full_configuration_stops_at_first_vector:
  "configureSensor um6_datasheet ack_all full_params [] =
     (Inl (RuntimeError ''Unable to configure vector.''),
      [WriteRaw Communication 0x47FF8500, WriteRaw MiscConfig 0xD0000000,
       Command CmdZeroGyros, WriteVec MagRef 1 2 3]) \<and>
   configureSensor um6_datasheet ack_but_vectors full_params [] =
     (Inr (),
      [WriteRaw Communication 0x47FF8500, WriteRaw MiscConfig 0xD0000000,
       Command CmdZeroGyros, WriteVec MagRef 1 2 3, WriteVec AccelRef 4 5 6,
       WriteVec MagBias 7 8 9, WriteVec AccelBias 10 11 12,
       WriteVec GyroBias 13 14 15, WriteVec GpsHome 16 17 18])"
  by (simp add: configureSensor_def comm_reg_def misc_config_reg_def baudValueToBitSetting_def
      um6_datasheet_def ack_all_def ack_but_vectors_def no_params_def full_params_def
      param_or_def andThen_def writeOrThrow_def sendWaitAck_def sendCommand_def
      configureVector3_def skip_def)

text \<open>
  C4, as stated, fails: with nothing set and every operation acknowledged, the sequence
  sends the two register writes and then the zero-gyros command.
\<close>

theorem default_configuration_sends_zero_gyros:
  "configureSensor um6_datasheet ack_all no_params [] =
     (Inr (), [WriteRaw Communication 0x47F00500, WriteRaw MiscConfig 0xD0000000,
               Command CmdZeroGyros]) \<and>
   length (filter is_command (snd (configureSensor um6_datasheet ack_all no_params []))) = 1"
  by (simp add: configureSensor_def comm_reg_def misc_config_reg_def baudValueToBitSetting_def
      um6_datasheet_def ack_all_def no_params_def
      param_or_def andThen_def writeOrThrow_def sendWaitAck_def sendCommand_def
      configureVector3_def skip_def)

lemma comm_reg_supported:
  assumes "param_or (param_gps_baud p) 9600 \<in> supported_bauds"
  shows "\<exists>c. comm_reg fw p = Inr c"
  using assms
  by (auto simp: comm_reg_def baudValueToBitSetting_def supported_bauds_def Let_def)

text \<open>
  C4, amended: with no optional parameter set and GPS disabled (its parameter unset or
  false), every operation acknowledged and the five reference and bias registers being
  3-field registers, the sequence completes having sent exactly two register writes,
  communication and misc-config, and one command, zero gyros.
\<close>

theorem default_configuration_operations:
  assumes acks: "\<forall>tr x. dev tr x"
    and lens: "reg_length fw MagRef = 3" "reg_length fw AccelRef = 3" "reg_length fw MagBias = 3"
              "reg_length fw AccelBias = 3" "reg_length fw GyroBias = 3"
    and unset: "param_gps_baud p = None" "param_mag_updates p = None"
               "param_accel_updates p = None" "param_zero_gyros p = None"
               "param_mag_ref p = None" "param_accel_ref p = None" "param_mag_bias p = None"
               "param_accel_bias p = None" "param_gyro_bias p = None" "param_gps_home p = None"
    and nogps: "param_gps_enable p = None \<or> param_gps_enable p = Some False"
  shows "\<exists>c. comm_reg fw p = Inr c \<and>
           configureSensor fw dev p tr =
             (Inr (), tr @ [WriteRaw Communication c,
                            WriteRaw MiscConfig (misc_config_reg fw p),
                            Command CmdZeroGyros])"
proof -
  have "param_or (param_gps_baud p) 9600 \<in> supported_bauds"
    using unset by (simp add: param_or_def supported_bauds_def)
  from comm_reg_supported [OF this] obtain c where c: "comm_reg fw p = Inr c"
    by blast
  have off: "\<not> param_or (param_gps_enable p) False"
    using nogps by (auto simp add: param_or_def)
  have z: "param_or (param_zero_gyros p) True"
    using unset by (simp add: param_or_def)
  show ?thesis
    using acks lens unset off z
    by (simp add: c configureSensor_def andThen_def writeOrThrow_def sendWaitAck_def
        sendCommand_def configureVector3_def skip_def)
qed

text \<open>With nothing set at all: two register writes, then one command.\<close>

theorem default_configuration_operations_witness:
  "(\<forall>tr x. ack_all tr x) \<and>
   configureSensor um6_datasheet ack_all no_params [] =
     (Inr (), [WriteRaw Communication 0x47F00500, WriteRaw MiscConfig 0xD0000000,
               Command CmdZeroGyros])"
proof -
  have acks: "\<forall>tr x. ack_all tr x"
    by (simp add: ack_all_def)
  have lens: "reg_length um6_datasheet MagRef = 3" "reg_length um6_datasheet AccelRef = 3"
    "reg_length um6_datasheet MagBias = 3" "reg_length um6_datasheet AccelBias = 3"
    "reg_length um6_datasheet GyroBias = 3"
    by (simp_all add: um6_datasheet_def)
  have unset: "param_gps_baud no_params = None" "param_mag_updates no_params = None"
    "param_accel_updates no_params = None" "param_zero_gyros no_params = None"
    "param_mag_ref no_params = None" "param_accel_ref no_params = None"
    "param_mag_bias no_params = None" "param_accel_bias no_params = None"
    "param_gyro_bias no_params = None" "param_gps_home no_params = None"
    by (simp_all add: no_params_def)
  have nogps: "param_gps_enable no_params = None \<or> param_gps_enable no_params = Some False"
    by (simp add: no_params_def)
  have c: "comm_reg um6_datasheet no_params = Inr 0x47F00500"
    by (simp add: comm_reg_def baudValueToBitSetting_def um6_datasheet_def no_params_def
        param_or_def)
  have m: "misc_config_reg um6_datasheet no_params = 0xD0000000"
    by (simp add: misc_config_reg_def um6_datasheet_def no_params_def param_or_def)
  from default_configuration_operations [OF acks lens unset nogps, of "[]"]
  have "configureSensor um6_datasheet ack_all no_params [] =
     (Inr (), [WriteRaw Communication 0x47F00500, WriteRaw MiscConfig 0xD0000000,
               Command CmdZeroGyros])"
    by (simp add: c m)
  with acks show ?thesis
    by (intro conjI)
qed

subsection \<open>The sensor baud field of the communication register\<close>

lemma baud_field_or: "baud_field s (a OR b) = baud_field s a OR baud_field s b"
  by (simp add: baud_field_def)

lemma bit_five_low:
  assumes b: "bit (5 :: 32 word) n"
  shows "n < 3"
proof (rule ccontr)
  assume "\<not> n < 3"
  then obtain k where n: "n = 3 + k"
    using le_Suc_ex not_less by blast
  have z: "drop_bit 3 (5 :: 32 word) = 0"
    by simp
  have "bit (drop_bit 3 (5 :: 32 word)) k = bit (5 :: 32 word) (3 + k)"
    by (simp only: bit_drop_bit_eq comp_def)
  with b n have "bit (drop_bit 3 (5 :: 32 word)) k"
    by simp
  then show False
    unfolding z by simp
qed

lemma baud_field_own:
  assumes "s + 3 \<le> 32"
  shows "baud_field s (push_bit s (5 :: 32 word)) = 5"
  unfolding baud_field_def
proof (rule bit_eqI)
  fix n
  show "bit (take_bit 3 (drop_bit s (push_bit s (5 :: 32 word)))) n = bit (5 :: 32 word) n"
    using assms bit_five_low [of n] by (auto simp add: bit_simps)
qed

lemma baud_field_above:
  assumes "s + 3 \<le> g"
  shows "baud_field s (push_bit g (x :: 32 word)) = 0"
  using assms by (simp add: baud_field_def bit_eq_iff bit_simps)

lemma comm_flags_clear:
  assumes "baud_field s (comm_flags fw) = 0"
  shows "baud_field s (UM6_BROADCAST_ENABLED fw) = 0"
    "baud_field s (UM6_GYROS_PROC_ENABLED fw) = 0"
    "baud_field s (UM6_ACCELS_PROC_ENABLED fw) = 0"
    "baud_field s (UM6_MAG_PROC_ENABLED fw) = 0"
    "baud_field s (UM6_QUAT_ENABLED fw) = 0"
    "baud_field s (UM6_EULER_ENABLED fw) = 0"
    "baud_field s (UM6_COV_ENABLED fw) = 0"
    "baud_field s (UM6_TEMPERATURE_ENABLED fw) = 0"
    "baud_field s (UM6_GPS_POSITION_ENABLED fw) = 0"
    "baud_field s (UM6_GPS_REL_POSITION_ENABLED fw) = 0"
    "baud_field s (UM6_GPS_COURSE_SPEED_ENABLED fw) = 0"
    "baud_field s (UM6_GPS_SAT_SUMMARY_ENABLED fw) = 0"
    "baud_field s (UM6_GPS_SAT_DATA_ENABLED fw) = 0"
  using assms by (simp_all add: comm_flags_def baud_field_or or_eq_0_iff)

text \<open>
  C5, as stated, fails: with the serial rate configured as 9600, whose code is 0, the
  communication register is written with 5, the code of 115200, in the sensor baud field.
\<close>

theorem sensor_baud_field_ignores_serial_rate:
  "serial_baudrate slow_params = 9600 \<and>
   baudValueToBitSetting (serial_baudrate slow_params) = Inr 0 \<and>
   comm_reg um6_datasheet slow_params = Inr 0x47F00500 \<and>
   baud_field (UM6_BAUD_START_BIT um6_datasheet) 0x47F00500 = 5"
  by (simp add: serial_baudrate_def slow_params_def no_params_def param_or_def
      baudValueToBitSetting_def comm_reg_def um6_datasheet_def baud_field_def)

lemma appends_skip: "appends skip"
  by (simp add: appends_def skip_def)

lemma appends_sendCommand: "appends (sendCommand dev r)"
  by (simp add: appends_def sendCommand_def sendWaitAck_def)

lemma appends_configureVector3: "appends (configureVector3 fw dev r v)"
  by (simp add: appends_def configureVector3_def sendWaitAck_def split: option.splits)

lemma appends_writeOrThrow: "appends (writeOrThrow dev r v what)"
  by (simp add: appends_def writeOrThrow_def sendWaitAck_def)

lemma appends_andThen:
  assumes m: "appends m" and k: "appends k"
  shows "appends (andThen m k)"
  unfolding appends_def
proof
  fix tr
  from m obtain ops1 where o1: "snd (m tr) = tr @ ops1"
    unfolding appends_def by blast
  from k obtain ops2 where o2: "snd (k (tr @ ops1)) = (tr @ ops1) @ ops2"
    unfolding appends_def by blast
  show "\<exists>ops. snd (andThen m k tr) = tr @ ops"
  proof (cases "fst (m tr)")
    case (Inl e)
    then have "andThen m k tr = (Inl e, tr @ ops1)"
      using o1 by (cases "m tr") (simp add: andThen_def)
    then show ?thesis
      by simp
  next
    case (Inr u)
    then have "andThen m k tr = k (tr @ ops1)"
      using o1 by (cases "m tr") (simp add: andThen_def)
    with o2 show ?thesis
      by simp
  qed
qed

text \<open>
  Once the baud translation has succeeded, the first operation \<^verbatim>\<open>configureSensor\<close>
  sends is the write of \<^verbatim>\<open>comm_reg\<close> to the communication register, whatever the
  transport answers; when the translation throws, nothing is sent.
\<close>

lemma configureSensor_first_write:
  assumes c: "comm_reg fw p = Inr c"
  shows "\<exists>rest. snd (configureSensor fw dev p tr) = tr @ WriteRaw Communication c # rest"
proof -
  let ?k = "andThen (writeOrThrow dev MiscConfig (misc_config_reg fw p)
                    ''Unable to set misc config register.'')
        (andThen (if param_or (param_zero_gyros p) True
                  then sendCommand dev CmdZeroGyros else skip)
        (andThen (configureVector3 fw dev MagRef (param_mag_ref p))
        (andThen (configureVector3 fw dev AccelRef (param_accel_ref p))
        (andThen (configureVector3 fw dev MagBias (param_mag_bias p))
        (andThen (configureVector3 fw dev AccelBias (param_accel_bias p))
        (andThen (configureVector3 fw dev GyroBias (param_gyro_bias p))
                 (if param_or (param_gps_enable p) False
                  then configureVector3 fw dev GpsHome (param_gps_home p)
                  else skip)))))))"
  have k: "appends ?k"
    by (intro appends_andThen)
       (simp_all add: appends_skip appends_sendCommand appends_configureVector3
          appends_writeOrThrow)
  then obtain ops where ops: "snd (?k (tr @ [WriteRaw Communication c])) =
      (tr @ [WriteRaw Communication c]) @ ops"
    unfolding appends_def by blast
  have run: "configureSensor fw dev p tr =
      andThen (writeOrThrow dev Communication c ''Unable to set communication register.'') ?k tr"
    by (simp add: configureSensor_def c)
  show ?thesis
  proof (cases "dev tr (WriteRaw Communication c)")
    case True
    then have "configureSensor fw dev p tr = ?k (tr @ [WriteRaw Communication c])"
      unfolding run by (simp add: andThen_def writeOrThrow_def sendWaitAck_def)
    with ops show ?thesis
      by simp
  next
    case False
    then have "snd (configureSensor fw dev p tr) = tr @ [WriteRaw Communication c]"
      unfolding run by (simp add: andThen_def writeOrThrow_def sendWaitAck_def)
    then show ?thesis
      by simp
  qed
qed

lemma configureSensor_rejected_trace:
  assumes "comm_reg fw p = Inl e"
  shows "snd (configureSensor fw dev p tr) = tr"
  using assms by (simp add: configureSensor_def)

text \<open>
  C5, amended: the bitmask that \<^verbatim>\<open>configureSensor\<close> writes to the communication
  register in step 1 carries, at the sensor baud bit position, the code 5 of the fixed
  rate 115200, for every value \<open>b\<close> of the serial port's baud rate parameter. The
  write is sent whenever the GPS rate is a supported one. The field is read in a layout
  where it lies within the word, below the GPS baud field and clear of the enable flags.
\<close>

theorem sensor_baud_field_fixed:
  assumes within: "UM6_BAUD_START_BIT fw + 3 \<le> 32"
    and below: "UM6_BAUD_START_BIT fw + 3 \<le> UM6_GPS_BAUD_START_BIT fw"
    and clear: "baud_field (UM6_BAUD_START_BIT fw) (comm_flags fw) = 0"
  shows "(param_or (param_gps_baud p) 9600 \<in> supported_bauds \<longrightarrow>
            (\<exists>v rest. snd (configureSensor fw dev (p \<lparr> param_baud := b \<rparr>) tr) =
                         tr @ WriteRaw Communication v # rest)) \<and>
         (\<forall>v rest. snd (configureSensor fw dev (p \<lparr> param_baud := b \<rparr>) tr) =
                         tr @ WriteRaw Communication v # rest \<longrightarrow>
                    baud_field (UM6_BAUD_START_BIT fw) v = 5)"
proof (intro conjI impI allI)
  assume "param_or (param_gps_baud p) 9600 \<in> supported_bauds"
  then have "param_or (param_gps_baud (p \<lparr> param_baud := b \<rparr>)) 9600 \<in> supported_bauds"
    by simp
  from comm_reg_supported [OF this]
  obtain c where "comm_reg fw (p \<lparr> param_baud := b \<rparr>) = Inr c"
    by blast
  from configureSensor_first_write [OF this]
  show "\<exists>v rest. snd (configureSensor fw dev (p \<lparr> param_baud := b \<rparr>) tr) =
                   tr @ WriteRaw Communication v # rest"
    by blast
next
  fix v rest
  assume w: "snd (configureSensor fw dev (p \<lparr> param_baud := b \<rparr>) tr) =
               tr @ WriteRaw Communication v # rest"
  show "baud_field (UM6_BAUD_START_BIT fw) v = 5"
  proof (cases "comm_reg fw (p \<lparr> param_baud := b \<rparr>)")
    case (Inl e)
    from configureSensor_rejected_trace [OF this] w show ?thesis
      by simp
  next
    case (Inr c)
    from configureSensor_first_write [OF this, of dev tr] w have "v = c"
      by auto
    with Inr have "comm_reg fw (p \<lparr> param_baud := b \<rparr>) = Inr v"
      by simp
    then show ?thesis
      using baud_field_own [OF within] baud_field_above [OF below] comm_flags_clear [OF clear]
      by (auto simp add: comm_reg_def baud_115200 baud_field_or Let_def
          split: sum.splits if_splits)
  qed
qed

text \<open>The datasheet layout with a serial rate of 9600, every operation acknowledged.\<close>

theorem sensor_baud_field_fixed_witness:
  "UM6_BAUD_START_BIT um6_datasheet + 3 \<le> 32 \<and>
   UM6_BAUD_START_BIT um6_datasheet + 3 \<le> UM6_GPS_BAUD_START_BIT um6_datasheet \<and>
   baud_field (UM6_BAUD_START_BIT um6_datasheet) (comm_flags um6_datasheet) = 0 \<and>
   param_or (param_gps_baud no_params) 9600 \<in> supported_bauds \<and>
   snd (configureSensor um6_datasheet ack_all (no_params \<lparr> param_baud := Some 9600 \<rparr>) []) =
     [WriteRaw Communication 0x47F00500, WriteRaw MiscConfig 0xD0000000, Command CmdZeroGyros] \<and>
   baud_field (UM6_BAUD_START_BIT um6_datasheet) 0x47F00500 = 5"
proof -
  have s: "UM6_BAUD_START_BIT um6_datasheet + 3 \<le> 32"
    by (simp add: um6_datasheet_def)
  have g: "UM6_BAUD_START_BIT um6_datasheet + 3 \<le> UM6_GPS_BAUD_START_BIT um6_datasheet"
    by (simp add: um6_datasheet_def)
  have f: "baud_field (UM6_BAUD_START_BIT um6_datasheet) (comm_flags um6_datasheet) = 0"
    by (simp add: baud_field_def comm_flags_def um6_datasheet_def)
  have b: "param_or (param_gps_baud no_params) 9600 \<in> supported_bauds"
    by (simp add: no_params_def param_or_def supported_bauds_def)
  have run: "snd (configureSensor um6_datasheet ack_all
                    (no_params \<lparr> param_baud := Some 9600 \<rparr>) []) =
      [] @ WriteRaw Communication 0x47F00500 #
        [WriteRaw MiscConfig 0xD0000000, Command CmdZeroGyros]"
    by (simp add: configureSensor_def comm_reg_def misc_config_reg_def
        baudValueToBitSetting_def um6_datasheet_def ack_all_def no_params_def
        param_or_def andThen_def writeOrThrow_def sendWaitAck_def sendCommand_def
        configureVector3_def skip_def)
  from sensor_baud_field_fixed [OF s g f, of no_params ack_all "Some 9600" "[]"] run
  have "baud_field (UM6_BAUD_START_BIT um6_datasheet) 0x47F00500 = 5"
    by blast
  with s g f b run show ?thesis
    by simp
qed

section \<open>Properties of the reset service\<close>

lemma sendCommand_run:
  "sendCommand dev r tr =
     (if dev tr (Command r) then Inr () else Inl (RuntimeError ''Command to device failed.''),
      tr @ [Command r])"
  by (simp add: sendCommand_def sendWaitAck_def)

lemma fail_stop_skip: "fail_stop dev skip"
  by (simp add: fail_stop_def skip_def)

lemma fail_stop_return: "fail_stop dev (\<lambda>tr. (Inr v, tr))"
  by (simp add: fail_stop_def)

lemma fail_stop_sendCommand: "fail_stop dev (sendCommand dev r)"
  by (auto simp add: fail_stop_def sendCommand_run Cons_eq_append_conv)

lemma fail_stop_andThen:
  assumes m: "fail_stop dev m" and k: "fail_stop dev k"
  shows "fail_stop dev (andThen m k)"
  unfolding fail_stop_def
proof
  fix tr
  from m obtain ops1 where o1: "snd (m tr) = tr @ ops1"
    and s1: "\<And>pre c post. ops1 = pre @ c # post \<Longrightarrow> \<not> dev (tr @ pre) c \<Longrightarrow>
            post = [] \<and> fst (m tr) = Inl (RuntimeError ''Command to device failed.'')"
    unfolding fail_stop_def by blast
  show "\<exists>ops. snd (andThen m k tr) = tr @ ops \<and>
        (\<forall>pre c post. ops = pre @ c # post \<and> \<not> dev (tr @ pre) c \<longrightarrow>
            post = [] \<and> fst (andThen m k tr) = Inl (RuntimeError ''Command to device failed.''))"
  proof (cases "fst (m tr)")
    case (Inl e)
    then have eq: "andThen m k tr = (Inl e, tr @ ops1)"
      using o1 by (cases "m tr") (simp add: andThen_def)
    show ?thesis
      using s1 Inl by (intro exI [of _ ops1]) (auto simp: eq)
  next
    case (Inr u)
    then have eq: "andThen m k tr = k (tr @ ops1)"
      using o1 by (cases "m tr") (simp add: andThen_def)
    from k obtain ops2 where o2: "snd (k (tr @ ops1)) = (tr @ ops1) @ ops2"
      and s2: "\<And>pre c post. ops2 = pre @ c # post \<Longrightarrow> \<not> dev ((tr @ ops1) @ pre) c \<Longrightarrow>
            post = [] \<and> fst (k (tr @ ops1)) = Inl (RuntimeError ''Command to device failed.'')"
      unfolding fail_stop_def by blast
    have "post = [] \<and> fst (k (tr @ ops1)) = Inl (RuntimeError ''Command to device failed.'')"
      if split: "ops1 @ ops2 = pre @ c # post" and nack: "\<not> dev (tr @ pre) c"
      for pre c post
    proof -
      from split consider
          (left) us where "ops1 = pre @ c # us" "post = us @ ops2"
        | (right) us where "pre = ops1 @ us" "ops2 = us @ c # post"
        by (auto simp: append_eq_append_conv2 append_eq_Cons_conv Cons_eq_append_conv)
      then show ?thesis
      proof cases
        case left
        with s1 [of pre c us] nack Inr show ?thesis by simp
      next
        case right
        with s2 [of us c post] nack show ?thesis by simp
      qed
    qed
    then show ?thesis
      using o2 by (intro exI [of _ "ops1 @ ops2"]) (simp add: eq)
  qed
qed

lemma fail_stop_handleResetService: "fail_stop dev (handleResetService dev req)"
  unfolding handleResetService_def
  by (intro fail_stop_andThen fail_stop_return)
     (simp_all add: fail_stop_skip fail_stop_sendCommand)

text \<open>
  The handler has two outcomes: it returns \<^verbatim>\<open>true\<close>, or it ends in the exception of
  \<^verbatim>\<open>sendCommand\<close>. It never returns \<^verbatim>\<open>false\<close>.
\<close>

lemma handleResetService_outcomes:
  "fst (handleResetService dev req tr) = Inr True \<or>
   fst (handleResetService dev req tr) = Inl (RuntimeError ''Command to device failed.'')"
  by (simp add: handleResetService_def andThen_def sendCommand_run skip_def)

text \<open>
  C10: in the run of \<^verbatim>\<open>handleResetService\<close> on a request, a command whose
  acknowledgment fails is the last operation sent: no later flagged command follows it,
  and the handler ends in the exception of \<^verbatim>\<open>sendCommand\<close>.
\<close>

theorem reset_stops_at_first_failure:
  assumes "handleResetService dev req tr = (res, tr')"
    and "tr' = tr @ pre @ c # post"
    and "\<not> dev (tr @ pre) c"
  shows "post = [] \<and> res = Inl (RuntimeError ''Command to device failed.'')"
proof -
  from fail_stop_handleResetService [of dev req]
  obtain ops where o: "snd (handleResetService dev req tr) = tr @ ops"
    and s: "\<And>pre c post. ops = pre @ c # post \<Longrightarrow> \<not> dev (tr @ pre) c \<Longrightarrow>
            post = [] \<and>
            fst (handleResetService dev req tr) = Inl (RuntimeError ''Command to device failed.'')"
    unfolding fail_stop_def by blast
  from o assms have "ops = pre @ c # post"
    by simp
  from s [OF this assms(3)] assms(1) show ?thesis
    by simp
qed

text \<open>
  All four flags set and the estimator reset unacknowledged: the two reference commands
  are not sent.
\<close>

theorem reset_stops_at_first_failure_witness:
  "handleResetService nack_reset_ekf all_flags [] =
     (Inl (RuntimeError ''Command to device failed.''),
      [Command CmdZeroGyros, Command CmdResetEkf]) \<and>
   \<not> nack_reset_ekf [Command CmdZeroGyros] (Command CmdResetEkf)"
proof -
  obtain res tr' where run: "handleResetService nack_reset_ekf all_flags [] = (res, tr')"
    by (cases "handleResetService nack_reset_ekf all_flags []")
  have sent: "tr' = [] @ [Command CmdZeroGyros] @ Command CmdResetEkf # []"
    using run
    by (simp add: handleResetService_def andThen_def sendCommand_run skip_def
        nack_reset_ekf_def all_flags_def)
  have nack: "\<not> nack_reset_ekf ([] @ [Command CmdZeroGyros]) (Command CmdResetEkf)"
    by (simp add: nack_reset_ekf_def)
  from reset_stops_at_first_failure [OF run sent nack]
  have "res = Inl (RuntimeError ''Command to device failed.'')"
    by simp
  with run sent nack show ?thesis
    by simp
qed

section \<open>Properties of the published messages\<close>

text \<open>
  C6: whatever the snapshot, the subscribers and the parameters, \<^verbatim>\<open>publishMsgs\<close>
  publishes nothing on the dilution-of-precision topic.
\<close>

theorem dop_never_published:
  "on_topic GpsDop (publishMsgs fw r bus p header) = []"
  by (simp add: on_topic_def publishMsgs_def Let_def split: option.splits)

text \<open>
  C8: with a subscriber on the IMU topic, one IMU message is published, and its
  orientation is \<open>x = raw[2]\<close>, \<open>y = raw[1]\<close>, \<open>z = - raw[3]\<close>, \<open>w = raw[0]\<close> of the
  quaternion register; the raw identity \<open>(1, 0, 0, 0)\<close> gives \<open>(x, y, z, w) = (0, 0, 0, 1)\<close>.
\<close>

theorem orientation_remap:
  assumes "getNumSubscribers bus ImuData > 0"
  shows "\<exists>m. on_topic ImuData (publishMsgs fw r bus p header) = [ImuMsg m] \<and>
          qx (orientation m) = quat r 2 \<and> qy (orientation m) = quat r 1 \<and>
          qz (orientation m) = - quat r 3 \<and> qw (orientation m) = quat r 0 \<and>
          (quat r 0 = 1 \<and> quat r 1 = 0 \<and> quat r 2 = 0 \<and> quat r 3 = 0 \<longrightarrow>
             orientation m = Quaternion 0 0 0 1)"
  using assms by (simp add: on_topic_def publishMsgs_def Let_def split: option.splits)

text \<open>The sample snapshot holds the identity quaternion.\<close>

theorem orientation_remap_witness:
  "getNumSubscribers all_subscribed ImuData > 0 \<and>
   (\<exists>m. on_topic ImuData
           (publishMsgs um6_datasheet sample_registers all_subscribed full_params imu_link) =
           [ImuMsg m] \<and>
         orientation m = Quaternion 0 0 0 1)"
proof -
  have h: "getNumSubscribers all_subscribed ImuData > 0"
    by (simp add: all_subscribed_def)
  from orientation_remap [OF h, of um6_datasheet sample_registers full_params imu_link]
  obtain m where m: "on_topic ImuData
      (publishMsgs um6_datasheet sample_registers all_subscribed full_params imu_link) =
      [ImuMsg m]"
    and id: "quat sample_registers 0 = 1 \<and> quat sample_registers 1 = 0 \<and>
             quat sample_registers 2 = 0 \<and> quat sample_registers 3 = 0 \<longrightarrow>
             orientation m = Quaternion 0 0 0 1"
    by blast
  have "orientation m = Quaternion 0 0 0 1"
    using id by (simp add: sample_registers_def)
  with h m show ?thesis
    by blast
qed

text \<open>
  C9: angular velocity and linear acceleration (in the IMU message), the magnetic field
  and roll-pitch-yaw (each on its own topic, when it has a subscriber) are all
  \<open>x = raw[1]\<close>, \<open>y = raw[0]\<close>, \<open>z = - raw[2]\<close> of their register; a raw angular velocity
  \<open>(1, 2, 3)\<close> is published as \<open>(2, 1, -3)\<close>.
\<close>

theorem vector_remap:
  "(getNumSubscribers bus ImuData > 0 \<longrightarrow>
      (\<exists>m. on_topic ImuData (publishMsgs fw r bus p header) = [ImuMsg m] \<and>
           angular_velocity m = Vector3 (gyro r 1) (gyro r 0) (- gyro r 2) \<and>
           linear_acceleration m = Vector3 (accel r 1) (accel r 0) (- accel r 2) \<and>
           (gyro r 0 = 1 \<and> gyro r 1 = 2 \<and> gyro r 2 = 3 \<longrightarrow>
              angular_velocity m = Vector3 2 1 (- 3)))) \<and>
   (getNumSubscribers bus ImuMag > 0 \<longrightarrow>
      on_topic ImuMag (publishMsgs fw r bus p header) =
        [Vector3Stamped header (Vector3 (mag r 1) (mag r 0) (- mag r 2))]) \<and>
   (getNumSubscribers bus ImuRpy > 0 \<longrightarrow>
      on_topic ImuRpy (publishMsgs fw r bus p header) =
        [Vector3Stamped header (Vector3 (euler r 1) (euler r 0) (- euler r 2))])"
  by (simp add: on_topic_def publishMsgs_def Let_def split: option.splits)

text \<open>The sample snapshot holds the angular velocity \<open>(1, 2, 3)\<close>.\<close>

theorem vector_remap_witness:
  "getNumSubscribers all_subscribed ImuData > 0 \<and>
   getNumSubscribers all_subscribed ImuMag > 0 \<and>
   getNumSubscribers all_subscribed ImuRpy > 0 \<and>
   (\<exists>m. on_topic ImuData
           (publishMsgs um6_datasheet sample_registers all_subscribed full_params imu_link) =
           [ImuMsg m] \<and>
         angular_velocity m = Vector3 2 1 (- 3) \<and>
         linear_acceleration m = Vector3 5 4 (- 6)) \<and>
   on_topic ImuMag
     (publishMsgs um6_datasheet sample_registers all_subscribed full_params imu_link) =
     [Vector3Stamped imu_link (Vector3 8 7 (- 9))] \<and>
   on_topic ImuRpy
     (publishMsgs um6_datasheet sample_registers all_subscribed full_params imu_link) =
     [Vector3Stamped imu_link (Vector3 11 10 (- 12))]"
proof -
  have h: "getNumSubscribers all_subscribed ImuData > 0"
    "getNumSubscribers all_subscribed ImuMag > 0"
    "getNumSubscribers all_subscribed ImuRpy > 0"
    by (simp_all add: all_subscribed_def)
  have g: "gyro sample_registers 0 = 1" "gyro sample_registers (Suc 0) = 2"
    "gyro sample_registers 2 = 3"
    "accel sample_registers 0 = 4" "accel sample_registers (Suc 0) = 5"
    "accel sample_registers 2 = 6"
    "mag sample_registers 0 = 7" "mag sample_registers (Suc 0) = 8"
    "mag sample_registers 2 = 9"
    "euler sample_registers 0 = 10" "euler sample_registers (Suc 0) = 11"
    "euler sample_registers 2 = 12"
    by (simp_all add: sample_registers_def)
  show ?thesis
    using vector_remap [of all_subscribed um6_datasheet sample_registers full_params imu_link] h
    by (auto simp add: g)
qed

end
